theory Spec2Isabelle
  imports Main
begin

section \<open>The request-scoped value container (context\_package\_example.go)\<close>

subsection \<open>Data model\<close>

text \<open>
  The scope value stored for every request: the struct \<^verbatim>\<open>mainContext\<close> with its two
  string fields. Go strings are byte sequences, as is \<^typ>\<open>string\<close>.
\<close>

record mainContext =
  RequestID :: string
  IPAddress :: string

text \<open>
  Keys of context values. The package binds under the single unexported key type
  \<^verbatim>\<open>mainContextKey struct{}\<close>; every other package binds under keys of its own types,
  which never compare equal to it.
\<close>

datatype key = mainContextKey | foreignKey nat

text \<open>
  Values of type \<^verbatim>\<open>interface{}\<close> as they occur behind a context key: the nil interface
  (what \<^verbatim>\<open>Value\<close> returns for an unbound key), a value whose dynamic type is
  \<^verbatim>\<open>mainContext\<close>, or a value of some other dynamic type.
\<close>

datatype any = nil | mainContextValue mainContext | foreignValue string

text \<open>
  A propagation chain is a value of the standard library's \<^verbatim>\<open>context.Context\<close>: the
  empty root (\<^verbatim>\<open>context.Background()\<close>), a \<^verbatim>\<open>valueCtx\<close> made by
  \<^verbatim>\<open>context.WithValue\<close>, which holds its parent, one key and one value, or a derived
  context (\<^verbatim>\<open>WithCancel\<close>, \<^verbatim>\<open>WithDeadline\<close>, \<^verbatim>\<open>WithTimeout\<close>) that carries no value
  of its own. The nil interface value is not a chain: the library forbids passing it.
\<close>

datatype Context = Background | valueCtx Context key any | cancelCtx Context

text \<open>
  \<^verbatim>\<open>ctx.Value(key)\<close>: the nearest binding of the key on the way to the root, nil when
  there is none.
\<close>

fun Value :: "Context \<Rightarrow> key \<Rightarrow> any" where
  "Value Background k = nil"
| "Value (valueCtx parent key' val) k = (if key' = k then val else Value parent k)"
| "Value (cancelCtx parent) k = Value parent k"

text \<open>\<^verbatim>\<open>context.WithValue(parent, key, val)\<close>: a new node in front of the parent.\<close>

definition WithValue :: "Context \<Rightarrow> key \<Rightarrow> any \<Rightarrow> Context" where
  "WithValue parent k val = valueCtx parent k val"

text \<open>
  The two-result type assertion \<^verbatim>\<open>v.(mainContext)\<close>: the value and true when the
  dynamic type is \<^verbatim>\<open>mainContext\<close>, the zero value and false otherwise. It never panics.
\<close>

fun assertMainContext :: "any \<Rightarrow> mainContext \<times> bool" where
  "assertMainContext (mainContextValue m) = (m, True)"
| "assertMainContext nil = (\<lparr>RequestID = [], IPAddress = []\<rparr>, False)"
| "assertMainContext (foreignValue x) = (\<lparr>RequestID = [], IPAddress = []\<rparr>, False)"

subsection \<open>Operations\<close>

definition SetMainContext :: "Context \<Rightarrow> mainContext \<Rightarrow> Context" where
  "SetMainContext ctx data = WithValue ctx mainContextKey (mainContextValue data)"

definition GetMainContext :: "Context \<Rightarrow> mainContext" where
  "GetMainContext ctx =
     (let (mainCtx, ok) = assertMainContext (Value ctx mainContextKey)
      in if ok then mainCtx else \<lparr>RequestID = [], IPAddress = []\<rparr>)"

definition SetRequestID :: "Context \<Rightarrow> string \<Rightarrow> Context" where
  "SetRequestID ctx requestID =
     (let data = GetMainContext ctx;
          data = data\<lparr>RequestID := requestID\<rparr>
      in WithValue ctx mainContextKey (mainContextValue data))"

definition GetRequestID :: "Context \<Rightarrow> string" where
  "GetRequestID ctx = (let data = GetMainContext ctx in RequestID data)"

subsection \<open>Observers of a chain used to state the properties\<close>

text \<open>Whether an interface value has the dynamic type \<^verbatim>\<open>mainContext\<close>.\<close>

fun isMainContext :: "any \<Rightarrow> bool" where
  "isMainContext (mainContextValue m) = True"
| "isMainContext nil = False"
| "isMainContext (foreignValue x) = False"

text \<open>
  A scope value has been bound on a chain when some node of the chain binds the package's
  key to a value of type \<^verbatim>\<open>mainContext\<close>.
\<close>

fun scopeBound :: "Context \<Rightarrow> bool" where
  "scopeBound Background = False"
| "scopeBound (valueCtx parent k val) =
     ((k = mainContextKey \<and> isMainContext val) \<or> scopeBound parent)"
| "scopeBound (cancelCtx parent) = scopeBound parent"

text \<open>The number of bind operations (\<^verbatim>\<open>WithValue\<close> nodes) a chain is made of.\<close>

fun binds :: "Context \<Rightarrow> nat" where
  "binds Background = 0"
| "binds (valueCtx parent k val) = Suc (binds parent)"
| "binds (cancelCtx parent) = binds parent"

subsection \<open>Chains as linked nodes in a store\<close>

text \<open>
  In the running program a context is a pointer to a node, and \<^verbatim>\<open>context.WithValue\<close>
  allocates a new \<^verbatim>\<open>valueCtx\<close> node that points to its parent. To state what an
  operation does to the chains that existed before it, the nodes are placed in a store:
  a list of nodes, a context being the index of its node. A node refers to its parent
  by index.
\<close>

type_synonym addr = nat

datatype node = emptyNode | valueNode addr key any | cancelNode addr

type_synonym store = "node list"

text \<open>
  \<^verbatim>\<open>ctx.Value(key)\<close> on the store: the loop that follows the parent pointers. It has no
  result (\<open>None\<close>) when it leaves the store or never ends.
\<close>

partial_function (option) Value_st :: "store \<Rightarrow> addr \<Rightarrow> key \<Rightarrow> any option" where
  "Value_st h c k =
     (if c < length h then
        (case h ! c of
           emptyNode \<Rightarrow> Some nil
         | valueNode parent key' val \<Rightarrow> (if key' = k then Some val else Value_st h parent k)
         | cancelNode parent \<Rightarrow> Value_st h parent k)
      else None)"

declare Value_st.simps [code]

text \<open>\<^verbatim>\<open>context.WithValue\<close> on the store: one new node, at the next free index.\<close>

definition WithValue_st :: "store \<Rightarrow> addr \<Rightarrow> key \<Rightarrow> any \<Rightarrow> store \<times> addr" where
  "WithValue_st h parent k val = (h @ [valueNode parent k val], length h)"

definition SetMainContext_st :: "store \<Rightarrow> addr \<Rightarrow> mainContext \<Rightarrow> store \<times> addr" where
  "SetMainContext_st h ctx data = WithValue_st h ctx mainContextKey (mainContextValue data)"

definition GetMainContext_st :: "store \<Rightarrow> addr \<Rightarrow> mainContext option" where
  "GetMainContext_st h ctx =
     (case Value_st h ctx mainContextKey of
        None \<Rightarrow> None
      | Some v \<Rightarrow>
          (let (mainCtx, ok) = assertMainContext v
           in if ok then Some mainCtx else Some \<lparr>RequestID = [], IPAddress = []\<rparr>))"

definition SetRequestID_st :: "store \<Rightarrow> addr \<Rightarrow> string \<Rightarrow> (store \<times> addr) option" where
  "SetRequestID_st h ctx requestID =
     (case GetMainContext_st h ctx of
        None \<Rightarrow> None
      | Some data \<Rightarrow>
          (let data = data\<lparr>RequestID := requestID\<rparr>
           in Some (WithValue_st h ctx mainContextKey (mainContextValue data))))"

text \<open>
  The stores a program can build: every node was allocated after its parent, so its
  parent's index is below its own.
\<close>

fun parentBelow :: "addr \<Rightarrow> node \<Rightarrow> bool" where
  "parentBelow a emptyNode = True"
| "parentBelow a (valueNode parent k val) = (parent < a)"
| "parentBelow a (cancelNode parent) = (parent < a)"

definition wf_store :: "store \<Rightarrow> bool" where
  "wf_store h = list_all (\<lambda>a. parentBelow a (h ! a)) [0..<length h]"

text \<open>The chain a context of the store stands for, when its nodes are well placed.\<close>

function chain_of :: "store \<Rightarrow> addr \<Rightarrow> Context option" where
  "chain_of h a =
     (if a < length h then
        (case h ! a of
           emptyNode \<Rightarrow> Some Background
         | valueNode parent k val \<Rightarrow>
             (if parent < a then map_option (\<lambda>p. valueCtx p k val) (chain_of h parent)
              else None)
         | cancelNode parent \<Rightarrow>
             (if parent < a then map_option cancelCtx (chain_of h parent) else None))
      else None)"
  by pat_completeness auto
termination
  by (relation "measure snd") auto

declare chain_of.simps [simp del]

section \<open>The create-user endpoint (http handler example)\<close>

subsection \<open>Errors, wrapping and sentinels\<close>

text \<open>
  The two package-level sentinel errors, made by \<^verbatim>\<open>errors.New("input error")\<close> and
  \<^verbatim>\<open>errors.New("internal error")\<close>. Each is one fixed error value, compared by identity.
\<close>

datatype sentinel = errBadRequest | errInternal

text \<open>
  Error values: a sentinel, an error that only carries a message (what
  \<^verbatim>\<open>fmt.Errorf\<close> without \<^verbatim>\<open>%w\<close> returns, and what a collaborator hands back), or the
  result of \<^verbatim>\<open>fmt.Errorf\<close> with one \<^verbatim>\<open>%w\<close> operand: a message and the wrapped error.
\<close>

datatype goerror = Sentinel sentinel | errorString string | wrapError string goerror

text \<open>The method \<^verbatim>\<open>Error()\<close>: the message of an error value.\<close>

fun Error :: "goerror \<Rightarrow> string" where
  "Error (Sentinel errBadRequest) = ''input error''"
| "Error (Sentinel errInternal) = ''internal error''"
| "Error (errorString msg) = msg"
| "Error (wrapError msg e) = msg"

text \<open>
  \<^verbatim>\<open>errors.Is(err, target)\<close> for a sentinel target: the error is the target itself, or
  it unwraps, step by step, to the target.
\<close>

fun Is :: "goerror \<Rightarrow> sentinel \<Rightarrow> bool" where
  "Is (Sentinel s) target = (s = target)"
| "Is (errorString msg) target = False"
| "Is (wrapError msg e) target = Is e target"

text \<open>
  \<^verbatim>\<open>fmt.Errorf(prefix + "%s. %w", err, target)\<close>: the message is the prefix, the message
  of \<open>err\<close>, a full stop and a space, and the message of the target; only the target is
  wrapped.
\<close>

definition Errorf_wrap :: "string \<Rightarrow> goerror \<Rightarrow> sentinel \<Rightarrow> goerror" where
  "Errorf_wrap prefix e target =
     wrapError (prefix @ Error e @ ''. '' @ Error (Sentinel target)) (Sentinel target)"

text \<open>\<^verbatim>\<open>strings.Join(elems, sep)\<close>.\<close>

fun Join :: "string list \<Rightarrow> string \<Rightarrow> string" where
  "Join [] sep = []"
| "Join [a] sep = a"
| "Join (a # b # rest) sep = a @ sep @ Join (b # rest) sep"

subsection \<open>Request validation\<close>

text \<open>
  The decoded request body. \<^verbatim>\<open>ZipCode\<close> is a Go \<^verbatim>\<open>int\<close>; the program only compares it
  with zero, so the integer's width plays no role.
\<close>

record createUserRequest =
  FullName :: string
  Address :: string
  City :: string
  State :: string
  ZipCode :: int

record createUserResponse =
  ID :: string

text \<open>
  \<^verbatim>\<open>validateCreateUserRequest\<close>: the slice \<^verbatim>\<open>errs\<close> starts empty and receives one message
  per failed check, in the order of the checks; nil (\<open>None\<close>) is returned when it stayed
  empty, otherwise the error \<^verbatim>\<open>fmt.Errorf("%s", strings.Join(errs, "; "))\<close>.
  \<^verbatim>\<open>len(cur.State)\<close> counts bytes, as \<^const>\<open>length\<close> does on a \<^typ>\<open>string\<close>.
\<close>

definition validateCreateUserRequest :: "createUserRequest \<Rightarrow> goerror option" where
  "validateCreateUserRequest cur =
     (let errs = [];
          errs = (if FullName cur = [] then errs @ [''full name is required''] else errs);
          errs = (if Address cur = [] then errs @ [''address is required''] else errs);
          errs = (if City cur = [] then errs @ [''city is required''] else errs);
          errs = (if State cur = [] \<or> length (State cur) \<noteq> 2
                  then errs @ [''state is required and must be 2 characters''] else errs);
          errs = (if ZipCode cur = 0 then errs @ [''zip code is required''] else errs)
      in if length errs > 0 then Some (errorString (Join errs ''; '')) else None)"

text \<open>
  The specification's reading of the validation, to be compared with the code: the
  request is valid when the three names are non-empty, the state has length two and the
  zip code is not zero; the applicable messages are those of the failed fields, in the
  order full name, address, city, state, zip code.
\<close>

definition spec_valid :: "createUserRequest \<Rightarrow> bool" where
  "spec_valid cur \<longleftrightarrow>
     FullName cur \<noteq> [] \<and> Address cur \<noteq> [] \<and> City cur \<noteq> []
     \<and> length (State cur) = 2 \<and> ZipCode cur \<noteq> 0"

definition spec_messages :: "createUserRequest \<Rightarrow> string list" where
  "spec_messages cur =
     map snd (filter fst
       [(FullName cur = [], ''full name is required''),
        (Address cur = [], ''address is required''),
        (City cur = [], ''city is required''),
        (length (State cur) \<noteq> 2, ''state is required and must be 2 characters''),
        (ZipCode cur = 0, ''zip code is required'')])"

subsection \<open>The handler\<close>

text \<open>
  The controller holds the settings and the database handle; the request carries its
  context and its body. The settings client is not used by the create-user endpoint.
\<close>

record userSettingsData =
  Enabled :: bool
  APIKey :: string

record 'db Controller =
  settingsData :: userSettingsData
  DB :: 'db

record Request =
  reqContext :: Context
  Body :: string

text \<open>
  The calls \<^verbatim>\<open>handleCreateUser\<close> makes to its collaborators, recorded in the order they
  are made, so that what was called and what was not can be stated.
\<close>

datatype call = decodeCall string | validateCall createUserRequest
  | insertUserCall Context createUserRequest

text \<open>
  The outcome of \<^verbatim>\<open>handleCreateUser\<close>: its two results, the database after the call and
  the calls made.
\<close>

record 'db handled =
  hResp :: createUserResponse
  hErr :: "goerror option"
  hDB :: 'db
  hCalls :: "call list"

text \<open>
  \<^verbatim>\<open>handleCreateUser\<close>. The JSON decoder and \<^verbatim>\<open>DB.InsertUser\<close> are not part of the
  program text and are parameters: \<open>Decode\<close> maps the body to an error or to the decoded
  request, \<open>InsertUser\<close> maps the database, the context and the request to an error or
  the new user's ID, together with the database afterwards.
\<close>

definition handleCreateUser ::
  "(string \<Rightarrow> goerror + createUserRequest) \<Rightarrow>
   ('db \<Rightarrow> Context \<Rightarrow> createUserRequest \<Rightarrow> (goerror + string) \<times> 'db) \<Rightarrow>
   'db Controller \<Rightarrow> Context \<Rightarrow> Request \<Rightarrow> 'db handled" where
  "handleCreateUser Decode InsertUser c ctx req =
     (let resp = \<lparr>ID = []\<rparr> in
      case Decode (Body req) of
        Inl e \<Rightarrow>
          \<lparr>hResp = resp, hErr = Some (Errorf_wrap ''failed to decode. '' e errBadRequest),
           hDB = DB c, hCalls = [decodeCall (Body req)]\<rparr>
      | Inr cur \<Rightarrow>
          (case validateCreateUserRequest cur of
             Some e \<Rightarrow>
               \<lparr>hResp = resp,
                hErr = Some (Errorf_wrap ''failed to validate create user request. '' e
                               errBadRequest),
                hDB = DB c, hCalls = [decodeCall (Body req), validateCall cur]\<rparr>
           | None \<Rightarrow>
               (case InsertUser (DB c) ctx cur of
                  (Inl e, db') \<Rightarrow>
                    \<lparr>hResp = resp,
                     hErr = Some (Errorf_wrap ''failed to insert user. '' e errInternal),
                     hDB = db',
                     hCalls = [decodeCall (Body req), validateCall cur,
                               insertUserCall ctx cur]\<rparr>
                | (Inr userID, db') \<Rightarrow>
                    \<lparr>hResp = resp\<lparr>ID := userID\<rparr>, hErr = None, hDB = db',
                     hCalls = [decodeCall (Body req), validateCall cur,
                               insertUserCall ctx cur]\<rparr>)))"

text \<open>
  What \<^verbatim>\<open>n.Respond\<close> writes: a status code and a payload, which is
  \<^verbatim>\<open>response.Error\<close> of an error or of nil, or \<^verbatim>\<open>response.Success\<close> of the result.
\<close>

datatype payload = responseError "goerror option" | responseSuccess createUserResponse

text \<open>
  \<^verbatim>\<open>CreateUserHandler\<close>: the responses written, in order, and the database afterwards.
  Logging is left out: it writes no response. The status codes are those of
  \<^verbatim>\<open>net/http\<close>: 501 Not Implemented, 400 Bad Request, 500 Internal Server Error,
  201 Created.
\<close>

definition CreateUserHandler ::
  "(string \<Rightarrow> goerror + createUserRequest) \<Rightarrow>
   ('db \<Rightarrow> Context \<Rightarrow> createUserRequest \<Rightarrow> (goerror + string) \<times> 'db) \<Rightarrow>
   'db Controller \<Rightarrow> Request \<Rightarrow> (nat \<times> payload) list \<times> 'db" where
  "CreateUserHandler Decode InsertUser c req =
     (let ctx = reqContext req in
      if \<not> Enabled (settingsData c) then ([(501, responseError None)], DB c)
      else
        let h = handleCreateUser Decode InsertUser c ctx req in
        case hErr h of
          Some e \<Rightarrow>
            (if Is e errBadRequest then ([(400, responseError (Some e))], hDB h)
             else if Is e errInternal then ([(500, responseError None)], hDB h)
             else ([], hDB h))
        | None \<Rightarrow> ([(201, responseSuccess (hResp h))], hDB h))"

section \<open>Properties of the container\<close>

lemma Value_not_bound: "\<not> scopeBound ctx \<Longrightarrow> \<not> isMainContext (Value ctx mainContextKey)"
  by (induction ctx) auto

lemma GetMainContext_wrong_shape:
  "\<not> isMainContext (Value ctx mainContextKey) \<Longrightarrow>
   GetMainContext ctx = \<lparr>RequestID = [], IPAddress = []\<rparr>"
  by (cases "Value ctx mainContextKey") (simp_all add: GetMainContext_def)

lemma GetMainContext_WithValue:
  "GetMainContext (WithValue ctx mainContextKey (mainContextValue d)) = d"
  by (simp add: GetMainContext_def WithValue_def)

text \<open>
  Claim C1. Round trip: reading the scope from the chain returned by
  \<^verbatim>\<open>SetMainContext(ctx, s)\<close> gives exactly \<open>s\<close>, both fields included, whatever the
  chain \<open>ctx\<close> held before.
\<close>

theorem C1_get_after_set:
  "GetMainContext (SetMainContext ctx s) = s
   \<and> RequestID (GetMainContext (SetMainContext ctx s)) = RequestID s
   \<and> IPAddress (GetMainContext (SetMainContext ctx s)) = IPAddress s"
  by (simp add: SetMainContext_def GetMainContext_WithValue)

text \<open>
  Claim C2. Fail-open default: on a chain on which no scope value of type
  \<^verbatim>\<open>mainContext\<close> has been bound, \<^verbatim>\<open>GetMainContext\<close> returns the zero-valued scope. The
  function has no error result and its type assertion is the non-panicking form, so the
  returned scope is its whole outcome.
\<close>

theorem C2_default_when_unbound:
  assumes "\<not> scopeBound ctx"
  shows "GetMainContext ctx = \<lparr>RequestID = [], IPAddress = []\<rparr>"
  using assms by (intro GetMainContext_wrong_shape Value_not_bound)

theorem C2_default_when_unbound_witness:
  "\<not> scopeBound (valueCtx (cancelCtx (valueCtx Background mainContextKey (foreignValue ''x'')))
        (foreignKey 7) (mainContextValue \<lparr>RequestID = ''r'', IPAddress = ''i''\<rparr>))
   \<and> GetMainContext (valueCtx (cancelCtx (valueCtx Background mainContextKey (foreignValue ''x'')))
        (foreignKey 7) (mainContextValue \<lparr>RequestID = ''r'', IPAddress = ''i''\<rparr>))
     = \<lparr>RequestID = [], IPAddress = []\<rparr>"
  using C2_default_when_unbound
    [of "valueCtx (cancelCtx (valueCtx Background mainContextKey (foreignValue ''x'')))
        (foreignKey 7) (mainContextValue \<lparr>RequestID = ''r'', IPAddress = ''i''\<rparr>)"]
  by simp

text \<open>
  Claim C3. No clobber: after \<^verbatim>\<open>SetMainContext(ctx, s)\<close>, \<^verbatim>\<open>SetRequestID(_, x)\<close> yields a
  chain whose scope is \<open>s\<close> with the request ID replaced by \<open>x\<close>; the IP address is the
  one of \<open>s\<close>.
\<close>

theorem C3_set_request_id_no_clobber:
  "GetMainContext (SetRequestID (SetMainContext ctx s) x) = s\<lparr>RequestID := x\<rparr>
   \<and> IPAddress (GetMainContext (SetRequestID (SetMainContext ctx s) x)) = IPAddress s
   \<and> RequestID (GetMainContext (SetRequestID (SetMainContext ctx s) x)) = x"
  by (simp add: SetRequestID_def SetMainContext_def GetMainContext_WithValue)

text \<open>
  Claim C4. Per-field setter composition: \<^verbatim>\<open>SetRequestID(ctx, id)\<close> is the chain
  \<^verbatim>\<open>SetMainContext(ctx, s')\<close> for \<open>s'\<close> the scope read from \<open>ctx\<close> with its request ID
  replaced, so the two read the same under \<^verbatim>\<open>GetMainContext\<close>; and the update adds exactly
  one bind to the chain it was given, directly in front of it.
\<close>

theorem C4_set_request_id_is_get_update_set:
  "GetMainContext (SetRequestID ctx id') =
     GetMainContext (SetMainContext ctx ((GetMainContext ctx)\<lparr>RequestID := id'\<rparr>))
   \<and> SetRequestID ctx id' = SetMainContext ctx ((GetMainContext ctx)\<lparr>RequestID := id'\<rparr>)
   \<and> binds (SetRequestID ctx id') = Suc (binds ctx)
   \<and> (\<exists>v. SetRequestID ctx id' = valueCtx ctx mainContextKey v)"
  by (simp add: SetRequestID_def SetMainContext_def WithValue_def)

text \<open>
  Claim C5. The getter is a projection: \<^verbatim>\<open>GetRequestID(ctx)\<close> is the request ID field of
  \<^verbatim>\<open>GetMainContext(ctx)\<close>; after binding the scope with request ID "abc" and IP address
  "1.2.3.4" it returns "abc".
\<close>

theorem C5_get_request_id_projection:
  "GetRequestID ctx = RequestID (GetMainContext ctx)
   \<and> GetRequestID (SetMainContext ctx \<lparr>RequestID = ''abc'', IPAddress = ''1.2.3.4''\<rparr>) = ''abc''"
  by (simp add: GetRequestID_def SetMainContext_def GetMainContext_WithValue)

subsection \<open>The store and the chains it holds\<close>

lemma wf_storeD: "wf_store h \<Longrightarrow> a < length h \<Longrightarrow> parentBelow a (h ! a)"
  by (simp add: wf_store_def list_all_iff)

lemma wf_store_WithValue:
  "wf_store h \<Longrightarrow> ctx < length h \<Longrightarrow> wf_store (fst (WithValue_st h ctx k v))"
  by (auto simp: wf_store_def WithValue_st_def list_all_iff nth_append)

lemma chain_of_defined: "wf_store h \<Longrightarrow> a < length h \<Longrightarrow> \<exists>C. chain_of h a = Some C"
proof (induction a rule: less_induct)
  case (less a)
  show ?case
  proof (cases "h ! a")
    case emptyNode
    with less.prems show ?thesis by (simp add: chain_of.simps [of h a])
  next
    case (valueNode p k v)
    with less.prems have "p < a" using wf_storeD [of h a] by simp
    with less valueNode show ?thesis by (auto simp: chain_of.simps [of h a])
  next
    case (cancelNode p)
    with less.prems have "p < a" using wf_storeD [of h a] by simp
    with less cancelNode show ?thesis by (auto simp: chain_of.simps [of h a])
  qed
qed

text \<open>The lookup loop on the store ends and computes \<^const>\<open>Value\<close> of the chain.\<close>

lemma Value_st_chain: "chain_of h a = Some C \<Longrightarrow> Value_st h a k = Some (Value C k)"
proof (induction a arbitrary: C rule: less_induct)
  case (less a)
  from less.prems have a: "a < length h"
    by (simp add: chain_of.simps [of h a] split: if_splits)
  show ?case
  proof (cases "h ! a")
    case emptyNode
    with less.prems a show ?thesis
      by (simp add: chain_of.simps [of h a] Value_st.simps [of h a])
  next
    case (valueNode p k' v)
    with less.prems a obtain P where P: "p < a" "chain_of h p = Some P" "C = valueCtx P k' v"
      by (auto simp: chain_of.simps [of h a] split: if_splits)
    from less.IH [OF P(1) P(2)] valueNode a P(3) show ?thesis
      by (simp add: Value_st.simps [of h a])
  next
    case (cancelNode p)
    with less.prems a obtain P where P: "p < a" "chain_of h p = Some P" "C = cancelCtx P"
      by (auto simp: chain_of.simps [of h a] split: if_splits)
    from less.IH [OF P(1) P(2)] cancelNode a P(3) show ?thesis
      by (simp add: Value_st.simps [of h a])
  qed
qed

text \<open>Allocating a node changes no chain that was in the store.\<close>

lemma chain_of_append: "chain_of h a = Some C \<Longrightarrow> chain_of (h @ [n]) a = Some C"
proof (induction a arbitrary: C rule: less_induct)
  case (less a)
  from less.prems have a: "a < length h"
    by (simp add: chain_of.simps [of h a] split: if_splits)
  show ?case
  proof (cases "h ! a")
    case emptyNode
    with less.prems a show ?thesis
      by (simp add: chain_of.simps [of _ a] nth_append)
  next
    case (valueNode p k' v)
    with less.prems a obtain P where P: "p < a" "chain_of h p = Some P" "C = valueCtx P k' v"
      by (auto simp: chain_of.simps [of h a] split: if_splits)
    from less.IH [OF P(1) P(2)] valueNode a P show ?thesis
      by (simp add: chain_of.simps [of "h @ [n]" a] nth_append)
  next
    case (cancelNode p)
    with less.prems a obtain P where P: "p < a" "chain_of h p = Some P" "C = cancelCtx P"
      by (auto simp: chain_of.simps [of h a] split: if_splits)
    from less.IH [OF P(1) P(2)] cancelNode a P show ?thesis
      by (simp add: chain_of.simps [of "h @ [n]" a] nth_append)
  qed
qed

lemma GetMainContext_st_chain:
  "chain_of h a = Some C \<Longrightarrow> GetMainContext_st h a = Some (GetMainContext C)"
  by (simp add: GetMainContext_st_def GetMainContext_def Value_st_chain split: prod.splits)

text \<open>
  The operations on the store are the operations on chains: the context returned by
  the store's \<^verbatim>\<open>SetMainContext\<close> and \<^verbatim>\<open>SetRequestID\<close> stands for the chain the
  operations of the first section return.
\<close>

lemma chain_of_WithValue_st:
  assumes "chain_of h ctx = Some C"
  shows "chain_of (fst (WithValue_st h ctx k v)) (snd (WithValue_st h ctx k v))
           = Some (WithValue C k v)"
proof -
  from assms have "ctx < length h"
    by (simp add: chain_of.simps [of h ctx] split: if_splits)
  with chain_of_append [OF assms, of "valueNode ctx k v"] show ?thesis
    by (simp add: WithValue_st_def WithValue_def
        chain_of.simps [of "h @ [valueNode ctx k v]" "length h"])
qed

lemma SetMainContext_st_chain:
  "chain_of h ctx = Some C \<Longrightarrow>
   chain_of (fst (SetMainContext_st h ctx s)) (snd (SetMainContext_st h ctx s))
     = Some (SetMainContext C s)"
  by (simp add: SetMainContext_st_def SetMainContext_def chain_of_WithValue_st)

lemma SetRequestID_st_chain:
  "chain_of h ctx = Some C \<Longrightarrow>
   \<exists>h' ctx'. SetRequestID_st h ctx x = Some (h', ctx')
     \<and> chain_of h' ctx' = Some (SetRequestID C x)"
  using chain_of_WithValue_st
    [of h ctx C mainContextKey "mainContextValue ((GetMainContext C)\<lparr>RequestID := x\<rparr>)"]
  by (cases "WithValue_st h ctx mainContextKey
        (mainContextValue ((GetMainContext C)\<lparr>RequestID := x\<rparr>))")
     (simp add: SetRequestID_st_def SetRequestID_def GetMainContext_st_chain)

text \<open>
  Claim C8. Copy semantics: in a store whose nodes are well placed, computing
  \<^verbatim>\<open>SetMainContext(ctx, s)\<close> or \<^verbatim>\<open>SetRequestID(ctx, x)\<close> leaves every node that was in
  the store as it was, and \<^verbatim>\<open>GetMainContext(ctx)\<close> on the original context returns the
  same scope in the store after the operation as in the store before it.
\<close>

theorem C8_original_chain_unmodified:
  assumes "wf_store h" and "ctx < length h"
  shows "GetMainContext_st (fst (SetMainContext_st h ctx s)) ctx = GetMainContext_st h ctx
    \<and> take (length h) (fst (SetMainContext_st h ctx s)) = h
    \<and> (\<exists>h' ctx'. SetRequestID_st h ctx x = Some (h', ctx')
          \<and> GetMainContext_st h' ctx = GetMainContext_st h ctx
          \<and> take (length h) h' = h)
    \<and> (\<exists>d. GetMainContext_st h ctx = Some d)"
proof -
  from chain_of_defined [OF assms] obtain C where C: "chain_of h ctx = Some C" ..
  have before: "GetMainContext_st h ctx = Some (GetMainContext C)"
    using C by (rule GetMainContext_st_chain)
  have after: "GetMainContext_st (h @ [n]) ctx = Some (GetMainContext C)" for n
    using chain_of_append [OF C] by (rule GetMainContext_st_chain)
  show ?thesis
    by (simp add: SetMainContext_st_def SetRequestID_st_def WithValue_st_def before after)
qed

theorem C8_original_chain_unmodified_witness:
  "wf_store [emptyNode,
      valueNode 0 mainContextKey
        (mainContextValue \<lparr>RequestID = ''abc'', IPAddress = ''1.2.3.4''\<rparr>),
      cancelNode 1]
   \<and> (2::nat) < length [emptyNode,
      valueNode 0 mainContextKey
        (mainContextValue \<lparr>RequestID = ''abc'', IPAddress = ''1.2.3.4''\<rparr>),
      cancelNode 1]
   \<and> GetMainContext_st [emptyNode,
      valueNode 0 mainContextKey
        (mainContextValue \<lparr>RequestID = ''abc'', IPAddress = ''1.2.3.4''\<rparr>),
      cancelNode 1] 2 = Some \<lparr>RequestID = ''abc'', IPAddress = ''1.2.3.4''\<rparr>
   \<and> GetMainContext_st (fst (SetMainContext_st [emptyNode,
      valueNode 0 mainContextKey
        (mainContextValue \<lparr>RequestID = ''abc'', IPAddress = ''1.2.3.4''\<rparr>),
      cancelNode 1] 2 \<lparr>RequestID = ''xyz'', IPAddress = ''5.6.7.8''\<rparr>)) 2
       = Some \<lparr>RequestID = ''abc'', IPAddress = ''1.2.3.4''\<rparr>"
proof -
  let ?h = "[emptyNode,
      valueNode 0 mainContextKey
        (mainContextValue \<lparr>RequestID = ''abc'', IPAddress = ''1.2.3.4''\<rparr>),
      cancelNode 1]"
  have wf: "wf_store ?h" by code_simp
  have len: "(2::nat) < length ?h" by simp
  have rd: "GetMainContext_st ?h 2 = Some \<lparr>RequestID = ''abc'', IPAddress = ''1.2.3.4''\<rparr>"
    by code_simp
  from C8_original_chain_unmodified [OF wf len, of "\<lparr>RequestID = ''xyz'', IPAddress = ''5.6.7.8''\<rparr>"]
  have "GetMainContext_st (fst (SetMainContext_st ?h 2
          \<lparr>RequestID = ''xyz'', IPAddress = ''5.6.7.8''\<rparr>)) 2 = GetMainContext_st ?h 2"
    by blast
  with wf len rd show ?thesis by simp
qed

text \<open>
  Claim C9. Idempotence: binding the same scope twice reads the same as binding it once.
\<close>

theorem C9_set_twice_reads_same:
  "GetMainContext (SetMainContext (SetMainContext ctx s) s) =
     GetMainContext (SetMainContext ctx s)"
  by (simp add: SetMainContext_def GetMainContext_WithValue)

section \<open>Properties of the create-user endpoint\<close>

lemma Is_Errorf_wrap: "Is (Errorf_wrap prefix e target) t \<longleftrightarrow> target = t"
  by (simp add: Errorf_wrap_def)

lemma spec_messages_le5: "length (spec_messages cur) \<le> 5"
  by (simp add: spec_messages_def)

text \<open>The code's slice of messages is the specification's list of applicable messages.\<close>

lemma validate_eq_spec:
  "validateCreateUserRequest cur =
     (if spec_messages cur = [] then None
      else Some (errorString (Join (spec_messages cur) ''; '')))"
  unfolding validateCreateUserRequest_def spec_messages_def Let_def
  by (cases "FullName cur = []"; cases "Address cur = []"; cases "City cur = []";
      cases "length (State cur) = 2"; cases "ZipCode cur = 0") (simp_all, auto)

lemma spec_valid_iff: "spec_valid cur \<longleftrightarrow> spec_messages cur = []"
  by (auto simp: spec_valid_def spec_messages_def)

text \<open>
  Claim C6. Validation correctness: \<^verbatim>\<open>validateCreateUserRequest\<close> returns nil exactly
  when full name, address and city are non-empty, the state has length two and the zip
  code is not zero; otherwise it returns an error whose message is the messages of the
  failed fields, at least one and at most five, joined by "; " in the order full name,
  address, city, state, zip code.
\<close>

theorem C6_validation_correct:
  "(validateCreateUserRequest cur = None \<longleftrightarrow> spec_valid cur)
   \<and> (\<not> spec_valid cur \<longrightarrow>
        (\<exists>e. validateCreateUserRequest cur = Some e
           \<and> Error e = Join (spec_messages cur) ''; '')
        \<and> 1 \<le> length (spec_messages cur))
   \<and> length (spec_messages cur) \<le> 5"
  using spec_messages_le5 [of cur]
  by (cases "spec_messages cur") (simp_all add: validate_eq_spec spec_valid_iff)

theorem C6_validation_correct_witness:
  "\<not> spec_valid \<lparr>FullName = [], Address = ''1 Main St'', City = ''Reno'', State = ''NEV'',
        ZipCode = 89501\<rparr>
   \<and> (\<exists>e. validateCreateUserRequest \<lparr>FullName = [], Address = ''1 Main St'', City = ''Reno'',
             State = ''NEV'', ZipCode = 89501\<rparr> = Some e
          \<and> Error e = ''full name is required; state is required and must be 2 characters'')
   \<and> spec_valid \<lparr>FullName = ''Ann Lee'', Address = ''1 Main St'', City = ''Reno'',
        State = ''NV'', ZipCode = 89501\<rparr>
   \<and> validateCreateUserRequest \<lparr>FullName = ''Ann Lee'', Address = ''1 Main St'',
        City = ''Reno'', State = ''NV'', ZipCode = 89501\<rparr> = None"
  using C6_validation_correct [of "\<lparr>FullName = [], Address = ''1 Main St'', City = ''Reno'',
        State = ''NEV'', ZipCode = 89501\<rparr>"]
    C6_validation_correct [of "\<lparr>FullName = ''Ann Lee'', Address = ''1 Main St'',
        City = ''Reno'', State = ''NV'', ZipCode = 89501\<rparr>"]
  by (simp add: spec_valid_def spec_messages_def)

text \<open>
  Claim C7. The create-user flow: \<^verbatim>\<open>handleCreateUser\<close> decodes, then validates, then
  inserts. When decoding fails, or validation fails, the error returned wraps
  \<^verbatim>\<open>errBadRequest\<close>, the insert has not been called and the database is as it was. When
  the insert fails the error wraps \<^verbatim>\<open>errInternal\<close>. On success the error is nil and the
  response's ID is the user ID the insert returned.
\<close>

theorem C7_create_user_flow:
  "(Decode (Body req) = Inl e \<longrightarrow>
      (\<exists>w. hErr (handleCreateUser Decode InsertUser c ctx req) = Some w \<and> Is w errBadRequest)
      \<and> hCalls (handleCreateUser Decode InsertUser c ctx req) = [decodeCall (Body req)]
      \<and> hDB (handleCreateUser Decode InsertUser c ctx req) = DB c)
   \<and> (Decode (Body req) = Inr cur \<and> validateCreateUserRequest cur = Some e \<longrightarrow>
      (\<exists>w. hErr (handleCreateUser Decode InsertUser c ctx req) = Some w \<and> Is w errBadRequest)
      \<and> hCalls (handleCreateUser Decode InsertUser c ctx req) =
          [decodeCall (Body req), validateCall cur]
      \<and> hDB (handleCreateUser Decode InsertUser c ctx req) = DB c)
   \<and> (Decode (Body req) = Inr cur \<and> validateCreateUserRequest cur = None
        \<and> InsertUser (DB c) ctx cur = (Inl e, db') \<longrightarrow>
      (\<exists>w. hErr (handleCreateUser Decode InsertUser c ctx req) = Some w \<and> Is w errInternal)
      \<and> hCalls (handleCreateUser Decode InsertUser c ctx req) =
          [decodeCall (Body req), validateCall cur, insertUserCall ctx cur])
   \<and> (Decode (Body req) = Inr cur \<and> validateCreateUserRequest cur = None
        \<and> InsertUser (DB c) ctx cur = (Inr userID, db') \<longrightarrow>
      hErr (handleCreateUser Decode InsertUser c ctx req) = None
      \<and> ID (hResp (handleCreateUser Decode InsertUser c ctx req)) = userID
      \<and> hCalls (handleCreateUser Decode InsertUser c ctx req) =
          [decodeCall (Body req), validateCall cur, insertUserCall ctx cur]
      \<and> hDB (handleCreateUser Decode InsertUser c ctx req) = db')"
  by (simp add: handleCreateUser_def Is_Errorf_wrap)

theorem C7_create_user_flow_witness:
  "let Decode = (\<lambda>b.
         if b = ''{}'' then
           Inr \<lparr>FullName = [], Address = [], City = [], State = [], ZipCode = 0\<rparr>
         else if b = ''ann'' then
           Inr \<lparr>FullName = ''Ann Lee'', Address = ''1 Main St'', City = ''Reno'',
                State = ''NV'', ZipCode = 89501\<rparr>
         else if b = ''bob'' then
           Inr \<lparr>FullName = ''Bob'', Address = ''2 Main St'', City = ''Reno'',
                State = ''NV'', ZipCode = 89501\<rparr>
         else Inl (errorString ''unexpected EOF''));
       InsertUser = (\<lambda>db ctx cur.
         if FullName cur = ''Bob'' then (Inl (errorString ''duplicate''), db)
         else (Inr ''u1'', Suc db));
       c = \<lparr>settingsData = \<lparr>Enabled = True, APIKey = ''k''\<rparr>, DB = (0::nat)\<rparr>;
       run = (\<lambda>b. handleCreateUser Decode InsertUser c Background
                     \<lparr>reqContext = Background, Body = b\<rparr>)
   in Decode ''?'' = Inl (errorString ''unexpected EOF'')
    \<and> (\<exists>w. hErr (run ''?'') = Some w \<and> Is w errBadRequest)
    \<and> hCalls (run ''?'') = [decodeCall ''?''] \<and> hDB (run ''?'') = 0
    \<and> (\<exists>w. hErr (run ''{}'') = Some w \<and> Is w errBadRequest)
    \<and> hCalls (run ''{}'') = [decodeCall ''{}'',
          validateCall \<lparr>FullName = [], Address = [], City = [], State = [], ZipCode = 0\<rparr>]
    \<and> hDB (run ''{}'') = 0
    \<and> (\<exists>w. hErr (run ''bob'') = Some w \<and> Is w errInternal)
    \<and> hErr (run ''ann'') = None \<and> ID (hResp (run ''ann'')) = ''u1''
    \<and> hDB (run ''ann'') = 1
    \<and> hCalls (run ''ann'') = [decodeCall ''ann'',
          validateCall \<lparr>FullName = ''Ann Lee'', Address = ''1 Main St'', City = ''Reno'',
            State = ''NV'', ZipCode = 89501\<rparr>,
          insertUserCall Background \<lparr>FullName = ''Ann Lee'', Address = ''1 Main St'',
            City = ''Reno'', State = ''NV'', ZipCode = 89501\<rparr>]"
proof -
  let ?none = "\<lparr>FullName = [], Address = [], City = [], State = [], ZipCode = 0\<rparr>"
  let ?ann = "\<lparr>FullName = ''Ann Lee'', Address = ''1 Main St'', City = ''Reno'',
                State = ''NV'', ZipCode = 89501\<rparr>"
  let ?bob = "\<lparr>FullName = ''Bob'', Address = ''2 Main St'', City = ''Reno'',
                State = ''NV'', ZipCode = 89501\<rparr>"
  let ?D = "\<lambda>b. if b = ''{}'' then Inr ?none else if b = ''ann'' then Inr ?ann
              else if b = ''bob'' then Inr ?bob else Inl (errorString ''unexpected EOF'')"
  let ?I = "\<lambda>(db::nat) (ctx::Context) cur.
              if FullName cur = ''Bob'' then (Inl (errorString ''duplicate''), db)
              else (Inr ''u1'', Suc db)"
  let ?c = "\<lparr>settingsData = \<lparr>Enabled = True, APIKey = ''k''\<rparr>, DB = (0::nat)\<rparr>"
  let ?all = "''full name is required; address is required; city is required; ''
              @ ''state is required and must be 2 characters; zip code is required''"
  note flow = C7_create_user_flow [where Decode = ?D and InsertUser = ?I and c = ?c
      and ctx = Background]
  have v: "validateCreateUserRequest ?none = Some (errorString ?all)"
    by (simp add: validateCreateUserRequest_def)
  have a: "validateCreateUserRequest ?ann = None"
    by (simp add: validateCreateUserRequest_def)
  have b: "validateCreateUserRequest ?bob = None"
    by (simp add: validateCreateUserRequest_def)
  show ?thesis
    unfolding Let_def
    using flow [where req = "\<lparr>reqContext = Background, Body = ''?''\<rparr>"
        and e = "errorString ''unexpected EOF''"]
      flow [where req = "\<lparr>reqContext = Background, Body = ''{}''\<rparr>"
        and cur = ?none and e = "errorString ?all"]
      flow [where req = "\<lparr>reqContext = Background, Body = ''bob''\<rparr>"
        and cur = ?bob and e = "errorString ''duplicate''" and db' = 0]
      flow [where req = "\<lparr>reqContext = Background, Body = ''ann''\<rparr>"
        and cur = ?ann and userID = "''u1''" and db' = 1]
    by (simp add: v a b)
qed

text \<open>
  Claim C10. Sentinel exhaustiveness: an error returned by \<^verbatim>\<open>handleCreateUser\<close> wraps
  exactly one of \<^verbatim>\<open>errBadRequest\<close> and \<^verbatim>\<open>errInternal\<close>, so when the endpoint is enabled
  and \<^verbatim>\<open>handleCreateUser\<close> fails, \<^verbatim>\<open>CreateUserHandler\<close> writes exactly one response: 400
  with the error for \<^verbatim>\<open>errBadRequest\<close>, 500 without it for \<^verbatim>\<open>errInternal\<close>.
\<close>

theorem C10_failure_always_answered:
  "(hErr (handleCreateUser Decode InsertUser c ctx req) = Some e \<longrightarrow>
      Is e errBadRequest \<noteq> Is e errInternal)
   \<and> (Enabled (settingsData c)
        \<and> hErr (handleCreateUser Decode InsertUser c (reqContext req) req) = Some e \<longrightarrow>
      fst (CreateUserHandler Decode InsertUser c req) =
        [if Is e errBadRequest then (400, responseError (Some e))
         else (500, responseError None)])"
  by (auto simp: handleCreateUser_def CreateUserHandler_def Is_Errorf_wrap Let_def
      split: sum.splits option.splits prod.splits)

theorem C10_failure_always_answered_witness:
  "let Decode = (\<lambda>b.
         if b = ''bob'' then
           Inr \<lparr>FullName = ''Bob'', Address = ''2 Main St'', City = ''Reno'',
                State = ''NV'', ZipCode = 89501\<rparr>
         else Inl (errorString ''unexpected EOF''));
       InsertUser = (\<lambda>db ctx cur. (Inl (errorString ''duplicate''), db));
       c = \<lparr>settingsData = \<lparr>Enabled = True, APIKey = ''k''\<rparr>, DB = (0::nat)\<rparr>;
       run = (\<lambda>b. handleCreateUser Decode InsertUser c Background
                     \<lparr>reqContext = Background, Body = b\<rparr>);
       serve = (\<lambda>b. fst (CreateUserHandler Decode InsertUser c
                     \<lparr>reqContext = Background, Body = b\<rparr>))
   in Enabled (settingsData c)
    \<and> hErr (run ''?'') = Some (wrapError ''failed to decode. unexpected EOF. input error''
                                (Sentinel errBadRequest))
    \<and> serve ''?'' = [(400, responseError (Some
          (wrapError ''failed to decode. unexpected EOF. input error''
             (Sentinel errBadRequest))))]
    \<and> hErr (run ''bob'') = Some (wrapError ''failed to insert user. duplicate. internal error''
                                  (Sentinel errInternal))
    \<and> serve ''bob'' = [(500, responseError None)]"
proof -
  let ?bob = "\<lparr>FullName = ''Bob'', Address = ''2 Main St'', City = ''Reno'',
                State = ''NV'', ZipCode = 89501\<rparr>"
  let ?D = "\<lambda>b. if b = ''bob'' then Inr ?bob else Inl (errorString ''unexpected EOF'')"
  let ?I = "\<lambda>(db::nat) (ctx::Context) (cur::createUserRequest).
              (Inl (errorString ''duplicate'') :: goerror + string, db)"
  let ?c = "\<lparr>settingsData = \<lparr>Enabled = True, APIKey = ''k''\<rparr>, DB = (0::nat)\<rparr>"
  let ?e1 = "wrapError ''failed to decode. unexpected EOF. input error''
               (Sentinel errBadRequest)"
  let ?e2 = "wrapError ''failed to insert user. duplicate. internal error''
               (Sentinel errInternal)"
  have b: "validateCreateUserRequest ?bob = None"
    by (simp add: validateCreateUserRequest_def)
  have e1: "hErr (handleCreateUser ?D ?I ?c Background
                    \<lparr>reqContext = Background, Body = ''?''\<rparr>) = Some ?e1"
    by (simp add: handleCreateUser_def Errorf_wrap_def)
  have e2: "hErr (handleCreateUser ?D ?I ?c Background
                    \<lparr>reqContext = Background, Body = ''bob''\<rparr>) = Some ?e2"
    by (simp add: handleCreateUser_def Errorf_wrap_def b)
  note answered = C10_failure_always_answered [where Decode = ?D and InsertUser = ?I
      and c = ?c and ctx = Background]
  show ?thesis
    unfolding Let_def
    using answered [where req = "\<lparr>reqContext = Background, Body = ''?''\<rparr>" and e = ?e1]
      answered [where req = "\<lparr>reqContext = Background, Body = ''bob''\<rparr>" and e = ?e2]
      e1 e2
    by simp
qed

end
